theory Spec2Isabelle
  imports Complex_Main "HOL-Library.Char_ord" "HOL-Library.List_Lexorder"
    "HOL-Library.Product_Lexorder" "HOL-Library.Option_ord"
begin

section \<open>Values, requests and responses\<close>

text \<open>
  The application keeps its amounts as Python floats and SQLite REAL columns. The model
  leaves the number type open (the type variable \<open>'a\<close>) and uses only the operations the
  source applies to it (\<open>0\<close>, \<open>+\<close>, \<open>-\<close>, \<open><\<close>), in the order the source applies them, so
  that no law of arithmetic the floats lack is assumed. Examples are run at type \<open>real\<close>.

  \<open>float\<close> is Python's builtin; it is a parameter \<open>pyfloat\<close> of the model, \<open>None\<close> standing
  for the ValueError it raises on text that is not a number.
\<close>

datatype error = KeyError | ValueError | TypeError | OverflowError | BadRequest

text \<open>A value bound to a column of an SQL statement.\<close>

datatype 'a sqlval = SqlNull | SqlInt int | SqlReal 'a | SqlText string

text \<open>\<open>request.form\<close> and \<open>request.args\<close>: \<open>get\<close> answers \<open>None\<close> on a missing key.\<close>

type_synonym form = "string \<rightharpoonup> string"

text \<open>\<open>v or d\<close> on an optional text: \<open>None\<close> and the empty text are falsy.\<close>

definition or_else :: "string option \<Rightarrow> string \<Rightarrow> string" where
  "or_else v d = (case v of None \<Rightarrow> d | Some s \<Rightarrow> if s = [] then d else s)"

text \<open>
  \<open>_f(v)\<close>: \<open>float(v or 0)\<close>, and \<open>0.0\<close> on any exception. \<open>float(0)\<close> is \<open>0.0\<close>.
\<close>

definition f_coerce :: "(string \<Rightarrow> 'a option) \<Rightarrow> string option \<Rightarrow> 'a::zero" where
  "f_coerce pyfloat v =
     (case v of
        None \<Rightarrow> 0
      | Some s \<Rightarrow> if s = [] then 0
                  else (case pyfloat s of None \<Rightarrow> 0 | Some x \<Rightarrow> x))"

record user =
  u_id :: nat
  username :: string
  password :: string
  role :: string

text \<open>
  Where a request is sent: \<open>url_for(endpoint, **args)\<close>, or the referrer when the source
  writes \<open>request.referrer or url_for(...)\<close>.
\<close>

datatype location = UrlFor string "(string \<times> string) list" | Referrer string

text \<open>
  What a route answers: \<open>login_manager.unauthorized()\<close>, a redirect together with the
  messages flashed on the way (text and category), or the exception that ended the request.
\<close>

datatype response =
  Unauthorized | Redirect location "(string \<times> string) list" | Aborted error

definition referrer_or :: "string option \<Rightarrow> string \<Rightarrow> location" where
  "referrer_or ref endpoint =
     (case ref of None \<Rightarrow> UrlFor endpoint []
      | Some r \<Rightarrow> if r = [] then UrlFor endpoint [] else Referrer r)"

text \<open>
  \<open>@login_required\<close> and \<open>@roles_required(*roles)\<close>. \<open>current_user\<close> is \<open>None\<close> for an
  anonymous session. A refused request leaves the table \<open>t\<close> as it is.
\<close>

definition login_required ::
  "user option \<Rightarrow> 't \<Rightarrow> (user \<Rightarrow> 't \<times> response) \<Rightarrow> 't \<times> response" where
  "login_required current_user t fn =
     (case current_user of None \<Rightarrow> (t, Unauthorized) | Some u \<Rightarrow> fn u)"

definition roles_required ::
  "string list \<Rightarrow> user option \<Rightarrow> 't \<Rightarrow> (user \<Rightarrow> 't \<times> response) \<Rightarrow> 't \<times> response" where
  "roles_required roles current_user t fn =
     (case current_user of
        None \<Rightarrow> (t, Unauthorized)
      | Some u \<Rightarrow>
          if role u \<notin> set roles
          then (t, Redirect (UrlFor ''welcome'' []) [(''Not allowed.'', ''danger'')])
          else fn u)"

text \<open>
  The row id SQLite gives an inserted row: one more than the largest id of the table.
\<close>

definition fresh_id :: "nat list \<Rightarrow> nat" where
  "fresh_id ids = Suc (foldr max ids 0)"

section \<open>Daily inputs\<close>

text \<open>
  The amounts of \<open>daily_cash\<close> are REAL columns that may hold NULL (the schema is not part
  of the source; no constraint on the columns is assumed). The \<open>sqlite3\<close> module binds a
  Python float to a REAL, except the float NaN, which it binds as NULL. \<open>isnan\<close> says which
  numbers are NaN; like \<open>float\<close> it is a parameter of the model.
\<close>

definition bind_real :: "('a \<Rightarrow> bool) \<Rightarrow> 'a \<Rightarrow> 'a option" where
  "bind_real isnan x = (if isnan x then None else Some x)"

record 'a cash_entry =
  ce_id :: nat
  ce_date :: string
  total_kg :: "'a option"
  amount_tk :: "'a option"
  green_leaf_bill_payment :: "'a option"
  staff_salary :: "'a option"
  labour_bill :: "'a option"
  production_cost :: "'a option"
  coal :: "'a option"
  diesel :: "'a option"
  electricity :: "'a option"
  other_exp :: "'a option"
  total_cost :: "'a option"
  capital_cost :: "'a option"
  machineries :: "'a option"
  assets_purchase :: "'a option"
  construction :: "'a option"
  fixed_cost :: "'a option"
  grand_total :: "'a option"
  cash_receive :: "'a option"
  add_amount :: "'a option"
  less_amount :: "'a option"
  net_cash :: "'a option"
  ce_note :: string
  voucher_path :: "string option"
  ce_status :: string
  ce_created_by :: nat
  ce_approved_by :: "nat option"
  ce_approved_at :: "string option"

text \<open>Python's \<open>str.strip()\<close> on the note, for the blank and the control characters of ASCII.\<close>

definition is_space :: "char \<Rightarrow> bool" where
  "is_space c = (c \<in> set [CHR '' '', CHR 0x09, CHR 0x0A, CHR 0x0B, CHR 0x0C, CHR 0x0D,
                          CHR 0x1C, CHR 0x1D, CHR 0x1E, CHR 0x1F])"

definition strip :: "string \<Rightarrow> string" where
  "strip s = rev (dropWhile is_space (rev (dropWhile is_space s)))"

text \<open>
  The optional voucher: \<open>file and file.filename\<close> holds when a file part with a non-empty
  name was posted; the stored path is the time stamp, an underscore and the sanitised name.
\<close>

definition voucher_name :: "(string \<Rightarrow> string) \<Rightarrow> string \<Rightarrow> string option \<Rightarrow> string option" where
  "voucher_name secure_filename stamp file =
     (case file of
        None \<Rightarrow> None
      | Some filename \<Rightarrow>
          if filename = [] then None else Some (stamp @ ''_'' @ secure_filename filename))"

text \<open>
  The row \<open>daily()\<close> stores on a POST: the dictionary \<open>vals\<close>, each amount as \<open>sqlite3\<close>
  binds it. The columns \<open>approved_by\<close> and \<open>approved_at\<close> are not in the INSERT and start
  as NULL.
\<close>

definition daily_vals ::
  "(string \<Rightarrow> 'a option) \<Rightarrow> ('a \<Rightarrow> bool) \<Rightarrow> (string \<Rightarrow> string) \<Rightarrow> string \<Rightarrow> string
     \<Rightarrow> form \<Rightarrow> string option \<Rightarrow> user \<Rightarrow> nat \<Rightarrow> ('a::{zero,plus,minus}) cash_entry" where
  "daily_vals pyfloat isnan secure_filename today stamp g file current_user new_id =
     (let date_str = or_else (g ''date'') today;
          total_kg = f_coerce pyfloat (g ''total_kg'');
          amount_tk = f_coerce pyfloat (g ''amount_tk'');
          gl_pay = f_coerce pyfloat (g ''green_leaf_bill_payment'');
          staff_salary = f_coerce pyfloat (g ''staff_salary'');
          labour_bill = f_coerce pyfloat (g ''labour_bill'');
          production_cost = f_coerce pyfloat (g ''production_cost'');
          coal = f_coerce pyfloat (g ''coal'');
          diesel = f_coerce pyfloat (g ''diesel'');
          electricity = f_coerce pyfloat (g ''electricity'');
          other_exp = f_coerce pyfloat (g ''other_exp'');
          capital_cost = f_coerce pyfloat (g ''capital_cost'');
          machineries = f_coerce pyfloat (g ''machineries'');
          assets_purchase = f_coerce pyfloat (g ''assets_purchase'');
          construction = f_coerce pyfloat (g ''construction'');
          cash_receive = f_coerce pyfloat (g ''cash_receive'');
          add_amount = f_coerce pyfloat (g ''add_amount'');
          less_amount = f_coerce pyfloat (g ''less_amount'');
          total_cost = gl_pay + staff_salary + labour_bill + production_cost + coal + diesel
                         + electricity + other_exp;
          fixed_cost = capital_cost + machineries + assets_purchase + construction;
          grand_total = total_cost + fixed_cost;
          net_cash = cash_receive + add_amount - less_amount;
          note = strip (or_else (g ''note'') []);
          vp = voucher_name secure_filename stamp file
      in \<lparr> ce_id = new_id, ce_date = date_str,
           total_kg = bind_real isnan total_kg, amount_tk = bind_real isnan amount_tk,
           green_leaf_bill_payment = bind_real isnan gl_pay,
           staff_salary = bind_real isnan staff_salary,
           labour_bill = bind_real isnan labour_bill,
           production_cost = bind_real isnan production_cost,
           coal = bind_real isnan coal, diesel = bind_real isnan diesel,
           electricity = bind_real isnan electricity, other_exp = bind_real isnan other_exp,
           total_cost = bind_real isnan total_cost,
           capital_cost = bind_real isnan capital_cost,
           machineries = bind_real isnan machineries,
           assets_purchase = bind_real isnan assets_purchase,
           construction = bind_real isnan construction,
           fixed_cost = bind_real isnan fixed_cost, grand_total = bind_real isnan grand_total,
           cash_receive = bind_real isnan cash_receive,
           add_amount = bind_real isnan add_amount, less_amount = bind_real isnan less_amount,
           net_cash = bind_real isnan net_cash, ce_note = note, voucher_path = vp,
           ce_status = ''submitted'', ce_created_by = u_id current_user,
           ce_approved_by = None, ce_approved_at = None \<rparr>)"

text \<open>
  \<open>daily()\<close> on POST, behind \<open>@login_required\<close>: one row is appended to \<open>daily_cash\<close> and
  the caller is sent to the month of the entry (\<open>date_str[:7]\<close>).
\<close>

definition daily_post ::
  "(string \<Rightarrow> 'a option) \<Rightarrow> ('a \<Rightarrow> bool) \<Rightarrow> (string \<Rightarrow> string) \<Rightarrow> string \<Rightarrow> string
     \<Rightarrow> user option \<Rightarrow> form \<Rightarrow> string option \<Rightarrow> ('a::{zero,plus,minus}) cash_entry list
     \<Rightarrow> 'a cash_entry list \<times> response" where
  "daily_post pyfloat isnan secure_filename today stamp current_user g file daily_cash =
     login_required current_user daily_cash (\<lambda>u.
       let vals = daily_vals pyfloat isnan secure_filename today stamp g file u
                    (fresh_id (map ce_id daily_cash))
       in (daily_cash @ [vals],
           Redirect (UrlFor ''daily'' [(''month'', take 7 (ce_date vals))])
             [(''Saved (awaiting MD/Admin approval).'', ''success'')]))"


text \<open>SQL \<open>UPDATE ... WHERE\<close> and \<open>DELETE ... WHERE\<close> on a table kept as the list of its rows.\<close>

definition sql_update :: "('r \<Rightarrow> bool) \<Rightarrow> ('r \<Rightarrow> 'r) \<Rightarrow> 'r list \<Rightarrow> 'r list" where
  "sql_update wh upd rows = map (\<lambda>r. if wh r then upd r else r) rows"

definition sql_delete :: "('r \<Rightarrow> bool) \<Rightarrow> 'r list \<Rightarrow> 'r list" where
  "sql_delete wh rows = filter (\<lambda>r. \<not> wh r) rows"

text \<open>
  \<open>approve_daily\<close> and \<open>unapprove_daily\<close>, behind \<open>@login_required\<close> and
  \<open>@roles_required('admin','md')\<close>. \<open>now\<close> is \<open>datetime.now().isoformat(timespec='seconds')\<close>.
\<close>

definition approve_daily ::
  "user option \<Rightarrow> string \<Rightarrow> string option \<Rightarrow> nat \<Rightarrow> 'a cash_entry list
     \<Rightarrow> 'a cash_entry list \<times> response" where
  "approve_daily current_user now ref row_id daily_cash =
     login_required current_user daily_cash (\<lambda>_.
       roles_required [''admin'', ''md''] current_user daily_cash (\<lambda>u.
         (sql_update (\<lambda>r. ce_id r = row_id)
            (\<lambda>r. r\<lparr>ce_status := ''approved'', ce_approved_by := Some (u_id u),
                     ce_approved_at := Some now\<rparr>) daily_cash,
          Redirect (referrer_or ref ''daily'') [(''Daily entry approved.'', ''success'')])))"

definition unapprove_daily ::
  "user option \<Rightarrow> string option \<Rightarrow> nat \<Rightarrow> 'a cash_entry list
     \<Rightarrow> 'a cash_entry list \<times> response" where
  "unapprove_daily current_user ref row_id daily_cash =
     login_required current_user daily_cash (\<lambda>_.
       roles_required [''admin'', ''md''] current_user daily_cash (\<lambda>u.
         (sql_update (\<lambda>r. ce_id r = row_id)
            (\<lambda>r. r\<lparr>ce_status := ''submitted'', ce_approved_by := None,
                     ce_approved_at := None\<rparr>) daily_cash,
          Redirect (referrer_or ref ''daily'')
            [(''Daily entry reset to submitted.'', ''info'')])))"





subsection \<open>Monthly totals and the range summary\<close>

text \<open>
  SQL \<open>SUM\<close> adds the values of a group that are not NULL, in the order of the rows; it
  is NULL when there is none, and a sum that is NaN is NULL as well. \<open>COALESCE(x, 0)\<close>
  replaces NULL by \<open>0\<close>. The operators \<open>+\<close> and \<open>-\<close> of SQL are NULL on a NULL operand
  and when the result is NaN.
\<close>

definition sql_sum :: "('a \<Rightarrow> bool) \<Rightarrow> 'a option list \<Rightarrow> ('a::{zero,plus}) option" where
  "sql_sum isnan vs =
     (let ws = [v. Some v \<leftarrow> vs]
      in if ws = [] then None else bind_real isnan (foldl (+) 0 ws))"

definition coalesce :: "'a option \<Rightarrow> 'a \<Rightarrow> 'a" where
  "coalesce v d = (case v of None \<Rightarrow> d | Some x \<Rightarrow> x)"

definition sql_plus :: "('a \<Rightarrow> bool) \<Rightarrow> 'a option \<Rightarrow> 'a option \<Rightarrow> ('a::plus) option" where
  "sql_plus isnan a b =
     (case a of
        None \<Rightarrow> None
      | Some x \<Rightarrow> (case b of None \<Rightarrow> None | Some y \<Rightarrow> bind_real isnan (x + y)))"

definition sql_minus :: "('a \<Rightarrow> bool) \<Rightarrow> 'a option \<Rightarrow> 'a option \<Rightarrow> ('a::minus) option" where
  "sql_minus isnan a b =
     (case a of
        None \<Rightarrow> None
      | Some x \<Rightarrow> (case b of None \<Rightarrow> None | Some y \<Rightarrow> bind_real isnan (x - y)))"

text \<open>The 21 columns the month view totals, in the order of the SELECT.\<close>

definition cash_columns :: "(string \<times> ('a cash_entry \<Rightarrow> 'a option)) list" where
  "cash_columns =
     [(''total_kg'', total_kg), (''amount_tk'', amount_tk),
      (''green_leaf_bill_payment'', green_leaf_bill_payment),
      (''staff_salary'', staff_salary), (''labour_bill'', labour_bill),
      (''production_cost'', production_cost), (''coal'', coal), (''diesel'', diesel),
      (''electricity'', electricity), (''other_exp'', other_exp),
      (''total_cost'', total_cost), (''capital_cost'', capital_cost),
      (''machineries'', machineries), (''assets_purchase'', assets_purchase),
      (''construction'', construction), (''fixed_cost'', fixed_cost),
      (''grand_total'', grand_total), (''cash_receive'', cash_receive),
      (''add_amount'', add_amount), (''less_amount'', less_amount),
      (''net_cash'', net_cash)]"

text \<open>
  \<open>daily()\<close> on GET: the rows of the month (\<open>substr(date,1,7) = month\<close>) ordered by date
  and id, and the row \<open>tot\<close> of the 21 sums, keyed by column name.
\<close>

definition daily_rows :: "string \<Rightarrow> 'a cash_entry list \<Rightarrow> 'a cash_entry list" where
  "daily_rows month daily_cash =
     sort_key (\<lambda>r. (ce_date r, ce_id r)) (filter (\<lambda>r. take 7 (ce_date r) = month) daily_cash)"

definition daily_tot ::
  "('a \<Rightarrow> bool) \<Rightarrow> string \<Rightarrow> ('a::{zero,plus}) cash_entry list \<Rightarrow> (string \<times> 'a) list" where
  "daily_tot isnan month daily_cash =
     map (\<lambda>(name, col).
            (name, coalesce (sql_sum isnan (map col (filter (\<lambda>r. take 7 (ce_date r) = month)
                                                       daily_cash))) 0))
         cash_columns"

text \<open>
  \<open>summary()\<close>: expenses and revenue over the rows with \<open>date BETWEEN start AND end\<close>, the
  comparison being the one of text. \<open>start\<close> and \<open>end\<close> are the range the route has after it
  filled in the month for a missing bound.
\<close>

definition summary ::
  "('a \<Rightarrow> bool) \<Rightarrow> string \<Rightarrow> string \<Rightarrow> ('a::{zero,plus,minus}) cash_entry list \<Rightarrow> 'a \<times> 'a" where
  "summary isnan start end daily_cash =
     (let rows = filter (\<lambda>r. start \<le> ce_date r \<and> ce_date r \<le> end) daily_cash
      in (coalesce (sql_sum isnan (map (\<lambda>r. sql_plus isnan (total_cost r) (fixed_cost r)) rows)) 0,
          coalesce (sql_sum isnan
                      (map (\<lambda>r. sql_minus isnan (sql_plus isnan (cash_receive r) (add_amount r))
                                  (less_amount r)) rows)) 0))"

section \<open>People\<close>

record 'a worker =
  w_id :: nat
  w_name :: string
  join_date :: string
  leave_date :: "string option"
  w_note :: string
  active :: int
  hourly_rate :: "'a sqlval"
  approved_hourly_rate :: "'a sqlval"

record 'a staff =
  s_id :: nat
  s_name :: string
  position :: string
  salary :: "'a sqlval"
  s_join_date :: string
  s_leave_date :: "string option"
  approved_salary :: "'a sqlval"

text \<open>A float bound to a column: a REAL, or NULL for NaN.\<close>

definition sql_real :: "('a \<Rightarrow> bool) \<Rightarrow> 'a \<Rightarrow> 'a sqlval" where
  "sql_real isnan x = (if isnan x then SqlNull else SqlReal x)"

text \<open>\<open>request.form.get(k, d)\<close>: the default only replaces a missing key.\<close>

definition get_default :: "form \<Rightarrow> string \<Rightarrow> string \<Rightarrow> string" where
  "get_default g k d = (case g k of None \<Rightarrow> d | Some s \<Rightarrow> s)"

text \<open>
  \<open>people()\<close> on POST, behind \<open>@roles_required('manager','md','admin')\<close>. A worker is
  inserted with the posted \<open>hourly_rate\<close> as it was sent (text, \<open>"0"\<close> when missing), with
  \<open>active = 1\<close> and \<open>approved_hourly_rate = 0\<close>; a staff member with \<open>_f\<close> of the posted
  salary and \<open>approved_salary\<close> NULL. \<open>request.form["name"]\<close> on a form without the key ends
  the request (400).
\<close>

definition people_post ::
  "(string \<Rightarrow> 'a option) \<Rightarrow> ('a \<Rightarrow> bool) \<Rightarrow> string \<Rightarrow> user option \<Rightarrow> form
     \<Rightarrow> ('a::zero) worker list \<times> 'a staff list
     \<Rightarrow> ('a worker list \<times> 'a staff list) \<times> response" where
  "people_post pyfloat isnan today current_user g tables =
     login_required current_user tables (\<lambda>_.
       roles_required [''manager'', ''md'', ''admin''] current_user tables (\<lambda>u.
         let (workers, staff) = tables in
         if g ''kind'' = Some ''worker'' then
           (case g ''name'' of
              None \<Rightarrow> (tables, Aborted BadRequest)
            | Some name \<Rightarrow>
                ((workers @ [\<lparr> w_id = fresh_id (map w_id workers), w_name = name,
                                join_date = or_else (g ''join_date'') today,
                                leave_date = None, w_note = get_default g ''note'' [],
                                active = 1,
                                hourly_rate = SqlText (get_default g ''hourly_rate'' ''0''),
                                approved_hourly_rate = SqlInt 0 \<rparr>], staff),
                 Redirect (UrlFor ''people'' []) [(''Worker added.'', ''success'')]))
         else if g ''kind'' = Some ''staff'' then
           (case g ''name'' of
              None \<Rightarrow> (tables, Aborted BadRequest)
            | Some name \<Rightarrow>
                ((workers, staff @ [\<lparr> s_id = fresh_id (map s_id staff), s_name = name,
                                       position = get_default g ''position'' [],
                                       salary = sql_real isnan (f_coerce pyfloat (g ''salary'')),
                                       s_join_date = or_else (g ''join_date'') today,
                                       s_leave_date = None, approved_salary = SqlNull \<rparr>]),
                 Redirect (UrlFor ''people'' []) [(''Staff added.'', ''success'')]))
         else (tables, Redirect (UrlFor ''people'' []) [])))"

text \<open>
  \<open>update_hourly_rate\<close>, behind \<open>@roles_required('md','admin')\<close>: the posted \<open>new_rate\<close> is
  bound to the column as it was sent (NULL when the key is missing); the inner test of the
  role repeats the gate.
\<close>

definition form_value :: "string option \<Rightarrow> 'a sqlval" where
  "form_value v = (case v of None \<Rightarrow> SqlNull | Some s \<Rightarrow> SqlText s)"

definition update_hourly_rate ::
  "user option \<Rightarrow> form \<Rightarrow> nat \<Rightarrow> 'a worker list \<Rightarrow> 'a worker list \<times> response" where
  "update_hourly_rate current_user g worker_id workers =
     login_required current_user workers (\<lambda>_.
       roles_required [''md'', ''admin''] current_user workers (\<lambda>u.
         let new_rate = g ''new_rate'' in
         if role u \<in> set [''md'', ''admin''] then
           (sql_update (\<lambda>w. w_id w = worker_id)
              (\<lambda>w. w\<lparr>hourly_rate := form_value new_rate, approved_hourly_rate := SqlInt 0\<rparr>)
              workers,
            Redirect (UrlFor ''people'' [])
              [(''Hourly rate updated (pending approval).'', ''success'')])
         else (workers, Redirect (UrlFor ''people'' []) [])))"

definition approve_hourly_rate ::
  "user option \<Rightarrow> nat \<Rightarrow> 'a worker list \<Rightarrow> 'a worker list \<times> response" where
  "approve_hourly_rate current_user worker_id workers =
     login_required current_user workers (\<lambda>_.
       roles_required [''md'', ''admin''] current_user workers (\<lambda>u.
         (sql_update (\<lambda>w. w_id w = worker_id)
            (\<lambda>w. w\<lparr>approved_hourly_rate := hourly_rate w\<rparr>) workers,
          Redirect (UrlFor ''people'' []) [(''Hourly rate approved.'', ''success'')])))"

definition update_salary ::
  "user option \<Rightarrow> form \<Rightarrow> nat \<Rightarrow> 'a staff list \<Rightarrow> 'a staff list \<times> response" where
  "update_salary current_user g staff_id staff =
     login_required current_user staff (\<lambda>_.
       roles_required [''md'', ''admin''] current_user staff (\<lambda>u.
         let new_salary = g ''new_salary'' in
         (sql_update (\<lambda>s. s_id s = staff_id)
            (\<lambda>s. s\<lparr>salary := form_value new_salary, approved_salary := SqlNull\<rparr>) staff,
          Redirect (UrlFor ''people'' [])
            [(''Salary updated (pending approval).'', ''success'')])))"

text \<open>
  \<open>float(worker_data.get('hourly_rate', 0))\<close> in the GET branch of \<open>people()\<close>: the stored
  rate is read back as a float, which raises on text that is not a number.
\<close>

definition float_of_sqlval :: "(string \<Rightarrow> 'a option) \<Rightarrow> 'a sqlval \<Rightarrow> error + ('a::ring_1)" where
  "float_of_sqlval pyfloat v =
     (case v of
        SqlNull \<Rightarrow> Inl TypeError
      | SqlInt i \<Rightarrow> Inr (of_int i)
      | SqlReal x \<Rightarrow> Inr x
      | SqlText s \<Rightarrow> (case pyfloat s of None \<Rightarrow> Inl ValueError | Some x \<Rightarrow> Inr x))"

section \<open>Users\<close>

text \<open>
  \<open>delete_user\<close>, behind \<open>@login_required\<close> and \<open>@roles_required('md','admin')\<close>. The target
  is the first row with the id (\<open>fetchone\<close>).
\<close>

definition delete_user :: "user option \<Rightarrow> nat \<Rightarrow> user list \<Rightarrow> user list \<times> response" where
  "delete_user current_user uid users =
     login_required current_user users (\<lambda>_.
       roles_required [''md'', ''admin''] current_user users (\<lambda>u.
         if role u = ''manager'' then
           (users, Redirect (UrlFor ''users_page'' []) [(''Not allowed.'', ''danger'')])
         else
           (case find (\<lambda>r. u_id r = uid) users of
              None \<Rightarrow> (users, Redirect (UrlFor ''users_page'' []) [])
            | Some target \<Rightarrow>
                if role u = ''md'' \<and> role target \<noteq> ''manager'' then
                  (users, Redirect (UrlFor ''users_page'' [])
                            [(''MD can only delete managers.'', ''warning'')])
                else
                  (sql_delete (\<lambda>r. u_id r = uid) users,
                   Redirect (UrlFor ''users_page'' []) [(''Deleted.'', ''warning'')]))))"


section \<open>Calendar dates\<close>

text \<open>
  A timesheet date is stored as the text \<open>YYYY-MM-DD\<close> and read as a calendar date by
  SQLite's \<open>strftime\<close> and by Python's \<open>strptime\<close>. The model keeps the date the text
  denotes: year, month and day, each the number its digits write (so a triple may name a
  day no month has). On such text the order SQLite compares by is the lexicographic order
  of the triple, \<open>substr(date,1,7)\<close> and \<open>the_day[:7]\<close> are the pair of year and month, and
  equal texts are equal triples.
\<close>

type_synonym date = "nat \<times> nat \<times> nat"

definition month_of :: "date \<Rightarrow> nat \<times> nat" where
  "month_of dt = (case dt of (y, m, d) \<Rightarrow> (y, m))"

definition is_leap :: "nat \<Rightarrow> bool" where
  "is_leap y = (y mod 4 = 0 \<and> (y mod 100 \<noteq> 0 \<or> y mod 400 = 0))"

text \<open>\<open>calendar.monthrange(y, m)[1]\<close>, for a month from 1 to 12.\<close>

definition days_in_month :: "nat \<Rightarrow> nat \<Rightarrow> nat" where
  "days_in_month y m =
     (if m = 2 then (if is_leap y then 29 else 28)
      else if m = 4 \<or> m = 6 \<or> m = 9 \<or> m = 11 then 30 else 31)"

text \<open>The dates of Python's \<open>datetime\<close>: years 1 to 9999.\<close>

definition valid_date :: "date \<Rightarrow> bool" where
  "valid_date dt =
     (case dt of (y, m, d) \<Rightarrow>
        1 \<le> y \<and> y \<le> 9999 \<and> 1 \<le> m \<and> m \<le> 12 \<and> 1 \<le> d \<and> d \<le> days_in_month y m)"

text \<open>The proleptic Gregorian ordinal of \<open>datetime\<close>: day 1 is 0001-01-01, a Monday.\<close>

definition days_before_year :: "nat \<Rightarrow> nat" where
  "days_before_year y = (y - 1) * 365 + (y - 1) div 4 - (y - 1) div 100 + (y - 1) div 400"

definition days_before_month :: "nat \<Rightarrow> nat \<Rightarrow> nat" where
  "days_before_month y m = sum_list (map (days_in_month y) [1..<m])"

definition toordinal :: "date \<Rightarrow> nat" where
  "toordinal dt = (case dt of (y, m, d) \<Rightarrow> days_before_year y + days_before_month y m + d)"

text \<open>\<open>date.weekday()\<close> counts from Monday = 0.\<close>

definition weekday :: "date \<Rightarrow> nat" where
  "weekday dt = (toordinal dt + 6) mod 7"

text \<open>The day after a date, and \<open>n\<close> days after it.\<close>

definition next_day :: "date \<Rightarrow> date" where
  "next_day dt =
     (case dt of (y, m, d) \<Rightarrow>
        if d < days_in_month y m then (y, m, d + 1)
        else if m < 12 then (y, m + 1, 1)
        else (y + 1, 1, 1))"

definition add_days :: "nat \<Rightarrow> date \<Rightarrow> date" where
  "add_days n dt = (next_day ^^ n) dt"

text \<open>
  \<open>datetime.strptime(s, "%Y-%m-%d")\<close> raises ValueError on what is no date, and adding a
  \<open>timedelta\<close> raises OverflowError past 9999-12-31.
\<close>

definition strptime :: "date \<Rightarrow> error + date" where
  "strptime dt = (if valid_date dt then Inr dt else Inl ValueError)"

definition plus_days :: "date \<Rightarrow> nat \<Rightarrow> error + date" where
  "plus_days dt n =
     (let r = add_days n dt in if fst r > 9999 then Inl OverflowError else Inr r)"

text \<open>
  \<open>get_week_start\<close>: the number of days to Saturday (5 in Python's numbering) is added to
  the date.
\<close>

definition get_week_start :: "date \<Rightarrow> error + date" where
  "get_week_start date_str =
     (case strptime date_str of
        Inl e \<Rightarrow> Inl e
      | Inr date_obj \<Rightarrow>
          (let wd = weekday date_obj;
               days_to_saturday = nat ((5 - int wd) mod 7)
           in plus_days date_obj days_to_saturday))"

text \<open>
  SQLite reads the text \<open>YYYY-MM-DD\<close> as a date when the year is from 0000 to 9999, the
  month from 01 to 12 and the day from 01 to 31, whatever the length of the month: a day
  past the end of the month counts on into the next month (2025-02-30 is 2025-03-02).
  Other text of this form is no date, and \<open>strftime\<close> answers NULL on it.
\<close>

definition sql_date :: "date \<Rightarrow> date option" where
  "sql_date dt =
     (case dt of (y, m, d) \<Rightarrow>
        if y \<le> 9999 \<and> 1 \<le> m \<and> m \<le> 12 \<and> 1 \<le> d \<and> d \<le> 31
        then Some (add_days (d - 1) (y, m, 1)) else None)"

text \<open>
  The days from 0000-01-01, a Saturday, counted from 1; the year 0000 is a leap year.
  SQLite counts the days of the week from Sunday = 0.
\<close>

definition leap_years_before :: "nat \<Rightarrow> nat" where
  "leap_years_before y = (y + 3) div 4 - (y + 99) div 100 + (y + 399) div 400"

definition sql_day_number :: "date \<Rightarrow> nat" where
  "sql_day_number dt =
     (case dt of (y, m, d) \<Rightarrow> y * 365 + leap_years_before y + days_before_month y m + d)"

definition sql_weekday :: "date \<Rightarrow> nat" where
  "sql_weekday dt = (sql_day_number dt + 5) mod 7"

text \<open>
  SQLite's \<open>strftime('%Y-%m-%d', d, 'weekday 6')\<close>: the modifier \<open>weekday N\<close> moves the date
  forward to the next day whose weekday is \<open>N\<close>, and leaves a date of that weekday as it is.
  The result is NULL when \<open>d\<close> is no date or the day reached is past 9999-12-31.
\<close>

definition sql_weekday6 :: "date \<Rightarrow> date option" where
  "sql_weekday6 dt =
     (case sql_date dt of
        None \<Rightarrow> None
      | Some n \<Rightarrow>
          (let r = add_days (6 - sql_weekday n) n
           in if fst r > 9999 then None else Some r))"

section \<open>Timesheets\<close>

record 'a timesheet =
  ts_id :: nat
  ts_date :: date
  worker_id :: nat
  hours :: 'a
  ts_note :: string
  ts_status :: string
  ts_created_by :: nat
  ts_approved_by :: "nat option"
  ts_approved_at :: "string option"

text \<open>The decimal text of a number, as an f-string writes a row id.\<close>

fun str_nat :: "nat \<Rightarrow> string" where
  "str_nat n =
     (if n < 10 then [char_of (48 + n)]
      else str_nat (n div 10) @ [char_of (48 + n mod 10)])"

declare str_nat.simps [simp del]

text \<open>
  \<open>timesheets_page\<close> on POST, behind \<open>@roles_required('manager','md','admin')\<close>: for each
  active worker, by name, a row is inserted when \<open>_f\<close> of the posted hours is positive.
  (The redirect goes back to the page of the day; its \<open>date\<close> argument is left out.)
\<close>

definition active_workers :: "'a worker list \<Rightarrow> 'a worker list" where
  "active_workers workers = sort_key w_name (filter (\<lambda>w. active w = 1) workers)"

definition timesheet_insert ::
  "(string \<Rightarrow> 'a option) \<Rightarrow> date \<Rightarrow> form \<Rightarrow> user \<Rightarrow> 'a timesheet list \<Rightarrow> 'b worker
     \<Rightarrow> ('a::{zero,ord}) timesheet list" where
  "timesheet_insert pyfloat the_day g u timesheets w =
     (let key = ''hours_'' @ str_nat (w_id w);
          h = f_coerce pyfloat (g key)
      in if h > 0
         then timesheets @
                [\<lparr> ts_id = fresh_id (map ts_id timesheets), ts_date = the_day,
                   worker_id = w_id w, hours = h,
                   ts_note = get_default g (''note_'' @ str_nat (w_id w)) [],
                   ts_status = ''pending'', ts_created_by = u_id u,
                   ts_approved_by = None, ts_approved_at = None \<rparr>]
         else timesheets)"

definition timesheets_post ::
  "(string \<Rightarrow> 'a option) \<Rightarrow> user option \<Rightarrow> date \<Rightarrow> form \<Rightarrow> 'b worker list
     \<Rightarrow> ('a::{zero,ord}) timesheet list \<Rightarrow> 'a timesheet list \<times> response" where
  "timesheets_post pyfloat current_user the_day g workers timesheets =
     login_required current_user timesheets (\<lambda>_.
       roles_required [''manager'', ''md'', ''admin''] current_user timesheets (\<lambda>u.
         (foldl (timesheet_insert pyfloat the_day g u) timesheets (active_workers workers),
          Redirect (UrlFor ''timesheets_page'' [])
            [(''Saved timesheets (pending approval).'', ''success'')])))"

text \<open>\<open>approve_timesheet\<close> and \<open>reset_timesheet\<close>, behind \<open>@roles_required('md','admin')\<close>.\<close>

definition approve_timesheet ::
  "user option \<Rightarrow> string \<Rightarrow> string option \<Rightarrow> nat \<Rightarrow> 'a timesheet list
     \<Rightarrow> 'a timesheet list \<times> response" where
  "approve_timesheet current_user now ref tid timesheets =
     login_required current_user timesheets (\<lambda>_.
       roles_required [''md'', ''admin''] current_user timesheets (\<lambda>u.
         (sql_update (\<lambda>r. ts_id r = tid)
            (\<lambda>r. r\<lparr>ts_status := ''approved'', ts_approved_by := Some (u_id u),
                     ts_approved_at := Some now\<rparr>) timesheets,
          Redirect (referrer_or ref ''timesheets_page'')
            [(''Timesheet approved.'', ''success'')])))"

definition reset_timesheet ::
  "user option \<Rightarrow> string option \<Rightarrow> nat \<Rightarrow> 'a timesheet list
     \<Rightarrow> 'a timesheet list \<times> response" where
  "reset_timesheet current_user ref tid timesheets =
     login_required current_user timesheets (\<lambda>_.
       roles_required [''md'', ''admin''] current_user timesheets (\<lambda>u.
         (sql_update (\<lambda>r. ts_id r = tid)
            (\<lambda>r. r\<lparr>ts_status := ''pending'', ts_approved_by := None,
                     ts_approved_at := None\<rparr>) timesheets,
          Redirect (referrer_or ref ''timesheets_page'')
            [(''Timesheet reset to pending.'', ''info'')])))"


subsection \<open>The monthly grid\<close>

text \<open>
  \<open>FROM timesheets t JOIN workers w ON w.id = t.worker_id\<close>: each timesheet row with the
  name of its worker.
\<close>

definition timesheets_join :: "'a timesheet list \<Rightarrow> 'b worker list \<Rightarrow> ('a timesheet \<times> string) list" where
  "timesheets_join timesheets workers =
     [(t, w_name w). t \<leftarrow> timesheets, w \<leftarrow> workers, w_id w = worker_id t]"

text \<open>\<open>float(h or 0)\<close> on a number: a zero is falsy and replaced by \<open>0\<close>.\<close>

definition float_or0 :: "'a \<Rightarrow> 'a::zero" where
  "float_or0 h = (if h = 0 then 0 else h)"

text \<open>
  The query \<open>week_rows\<close>: the rows of the month are grouped by \<open>week_start\<close>, which is
  \<open>strftime('%Y-%m-%d', t.date, 'weekday 6')\<close>, and by the name of the worker; each group
  gives \<open>COALESCE(SUM(t.hours), 0)\<close>; the groups are ordered by \<open>week_start\<close> and name, a
  NULL \<open>week_start\<close> first.
\<close>

definition week_key :: "'a timesheet \<times> string \<Rightarrow> date option \<times> string" where
  "week_key r = (sql_weekday6 (ts_date (fst r)), snd r)"

definition month_rows ::
  "nat \<times> nat \<Rightarrow> 'a timesheet list \<Rightarrow> 'b worker list \<Rightarrow> ('a timesheet \<times> string) list" where
  "month_rows month timesheets workers =
     filter (\<lambda>r. month_of (ts_date (fst r)) = month) (timesheets_join timesheets workers)"

definition week_hours ::
  "('a \<Rightarrow> bool) \<Rightarrow> ('a timesheet \<times> string) list \<Rightarrow> date option \<times> string
     \<Rightarrow> 'a::{zero,plus}" where
  "week_hours isnan rows k =
     coalesce (sql_sum isnan (map (\<lambda>r. Some (hours (fst r)))
                                (filter (\<lambda>r. week_key r = k) rows))) 0"

definition week_rows ::
  "('a \<Rightarrow> bool) \<Rightarrow> nat \<times> nat \<Rightarrow> ('a::{zero,plus}) timesheet list \<Rightarrow> 'b worker list
     \<Rightarrow> (date option \<times> string \<times> 'a) list" where
  "week_rows isnan month timesheets workers =
     (let rows = month_rows month timesheets workers
      in map (\<lambda>k. (fst k, snd k, week_hours isnan rows k))
           (sort (remdups (map week_key rows))))"

text \<open>
  The grid handed to the template: the dates of the month, the workers, the dictionary
  of dictionaries \<open>grid_data\<close> and the totals. A key of the inner dictionary is a date
  text or, for a NULL \<open>week_start\<close>, \<open>None\<close>.
\<close>

record 'a grid =
  grid_dates :: "date list"
  grid_workers :: "string list"
  grid_data :: "string \<rightharpoonup> (date option \<rightharpoonup> 'a)"
  grid_totals :: "string \<rightharpoonup> 'a"

text \<open>
  \<open>for r in week_rows: grid_data[r["worker"]][r["week_start"]] = float(r["hours"] or 0.0)\<close>:
  the outer lookup raises KeyError on a worker that is no key; the assignment to the inner
  dictionary adds the key when it is new.
\<close>

fun fill_grid ::
  "(string \<rightharpoonup> (date option \<rightharpoonup> 'a)) \<Rightarrow> (date option \<times> string \<times> 'a) list
     \<Rightarrow> error + (string \<rightharpoonup> (date option \<rightharpoonup> ('a::zero)))" where
  "fill_grid gd [] = Inr gd"
| "fill_grid gd ((week_start, worker, h) # rs) =
     (case gd worker of
        None \<Rightarrow> Inl KeyError
      | Some row \<Rightarrow> fill_grid (gd(worker \<mapsto> row(week_start \<mapsto> float_or0 h))) rs)"

text \<open>\<open>sum(grid_data[w][d] for d in grid_dates)\<close>, from the left, starting at \<open>0\<close>.\<close>

fun sum_cells :: "(date option \<rightharpoonup> 'a) \<Rightarrow> date list \<Rightarrow> 'a \<Rightarrow> error + ('a::plus)" where
  "sum_cells row [] acc = Inr acc"
| "sum_cells row (d # ds) acc =
     (case row (Some d) of None \<Rightarrow> Inl KeyError | Some v \<Rightarrow> sum_cells row ds (acc + v))"

fun totals_of ::
  "(string \<rightharpoonup> (date option \<rightharpoonup> 'a)) \<Rightarrow> date list \<Rightarrow> string list
     \<Rightarrow> error + (string \<times> ('a::{zero,plus})) list" where
  "totals_of gd dates [] = Inr []"
| "totals_of gd dates (w # ws) =
     (case gd w of
        None \<Rightarrow> Inl KeyError
      | Some row \<Rightarrow>
          (case sum_cells row dates 0 of
             Inl e \<Rightarrow> Inl e
           | Inr t \<Rightarrow>
               (case totals_of gd dates ws of
                  Inl e \<Rightarrow> Inl e
                | Inr ts \<Rightarrow> Inr ((w, t) # ts))))"

text \<open>
  \<open>timesheets_page\<close> on GET, after the gate: the part that builds the monthly grid from
  the day asked for. \<open>calendar.monthrange\<close> raises (a ValueError) on a month that is not
  from 1 to 12.
\<close>

definition timesheets_page ::
  "('a \<Rightarrow> bool) \<Rightarrow> date \<Rightarrow> 'b worker list \<Rightarrow> ('a::{zero,plus}) timesheet list
     \<Rightarrow> error + 'a grid" where
  "timesheets_page isnan the_day workers_table timesheets =
     (let month = month_of the_day;
          workers = active_workers workers_table;
          wrows = week_rows isnan month timesheets workers_table;
          y = fst month; m = snd month
      in if \<not> (1 \<le> m \<and> m \<le> 12) then Inl ValueError
         else
           (let last = days_in_month y m;
                dates = map (\<lambda>d. (y, m, d)) [1..<last + 1];
                names = sort (remdups (map w_name workers @ map (\<lambda>r. fst (snd r)) wrows));
                data0 = map_of (map (\<lambda>w. (w, map_of (map (\<lambda>d. (Some d, 0)) dates))) names)
            in case fill_grid data0 wrows of
                 Inl e \<Rightarrow> Inl e
               | Inr data \<Rightarrow>
                   (case totals_of data dates names of
                      Inl e \<Rightarrow> Inl e
                    | Inr totals \<Rightarrow>
                        Inr \<lparr> grid_dates = dates, grid_workers = names,
                              grid_data = data, grid_totals = map_of totals \<rparr>)))"

text \<open>The cell the template shows for a worker and a date of the grid.\<close>

definition grid_cell :: "'a grid \<Rightarrow> string \<Rightarrow> date \<Rightarrow> 'a option" where
  "grid_cell g w d = (case grid_data g w of None \<Rightarrow> None | Some row \<Rightarrow> row (Some d))"

text \<open>The entry of a dictionary of dictionaries, \<open>None\<close> when either key is missing.\<close>

definition cell_of :: "('k \<rightharpoonup> ('d \<rightharpoonup> 'a)) \<Rightarrow> 'k \<Rightarrow> 'd \<Rightarrow> 'a option" where
  "cell_of gd w k = (case gd w of None \<Rightarrow> None | Some row \<Rightarrow> row k)"


text \<open>
  The rows of the month whose week bucket lies after the last day of the month, and the
  rows of the month without them.
\<close>

definition late_bucket :: "nat \<times> nat \<Rightarrow> 'a timesheet \<Rightarrow> bool" where
  "late_bucket month t =
     (month_of (ts_date t) = month
      \<and> (case sql_weekday6 (ts_date t) of
           None \<Rightarrow> False
         | Some week_start \<Rightarrow>
             (fst month, snd month, days_in_month (fst month) (snd month)) < week_start))"

definition shown_rows ::
  "nat \<times> nat \<Rightarrow> 'a timesheet list \<Rightarrow> 'b worker list \<Rightarrow> ('a timesheet \<times> string) list" where
  "shown_rows month timesheets workers =
     filter (\<lambda>r. \<not> late_bucket month (fst r)) (month_rows month timesheets workers)"


section \<open>Example data\<close>

text \<open>
  The inputs the examples below are run on: a reader of a few decimal literals in the
  place of \<open>float\<close>, with real numbers, none of which is NaN, as its results; a logged-in
  user of a given role, and a worker of the roster.
\<close>

definition ex_pyfloat :: "string \<Rightarrow> real option" where
  "ex_pyfloat = [''8'' \<mapsto> 8, ''3'' \<mapsto> 3, ''5'' \<mapsto> 5, ''12.5'' \<mapsto> 12.5]"

definition ex_isnan :: "real \<Rightarrow> bool" where
  "ex_isnan x = False"

text \<open>
  A number type with the special values of a float, for the inputs \<open>nan\<close> and \<open>inf\<close>
  that \<open>float\<close> reads: a finite number (kept as the real it stands for), the two
  infinities and NaN, with the sums and differences of IEEE 754 on them.
\<close>

datatype xfloat = Finite real | PosInf | NegInf | NaN

fun negate :: "xfloat \<Rightarrow> xfloat" where
  "negate (Finite x) = Finite (- x)"
| "negate PosInf = NegInf"
| "negate NegInf = PosInf"
| "negate NaN = NaN"

instantiation xfloat :: "{zero,plus,minus}"
begin

definition zero_xfloat :: xfloat where
  "zero_xfloat = Finite 0"

fun plus_xfloat :: "xfloat \<Rightarrow> xfloat \<Rightarrow> xfloat" where
  "plus_xfloat NaN y = NaN"
| "plus_xfloat x NaN = NaN"
| "plus_xfloat PosInf NegInf = NaN"
| "plus_xfloat NegInf PosInf = NaN"
| "plus_xfloat PosInf y = PosInf"
| "plus_xfloat x PosInf = PosInf"
| "plus_xfloat NegInf y = NegInf"
| "plus_xfloat x NegInf = NegInf"
| "plus_xfloat (Finite x) (Finite y) = Finite (x + y)"

definition minus_xfloat :: "xfloat \<Rightarrow> xfloat \<Rightarrow> xfloat" where
  "minus_xfloat x y = x + negate y"

instance ..

end



definition ex_user :: "string \<Rightarrow> user" where
  "ex_user r = \<lparr> u_id = 1, username = ''rio'', password = [], role = r \<rparr>"

definition ex_worker :: "nat \<Rightarrow> string \<Rightarrow> real worker" where
  "ex_worker i n = \<lparr> w_id = i, w_name = n, join_date = ''2025-01-01'', leave_date = None,
      w_note = [], active = 1, hourly_rate = SqlText ''0'', approved_hourly_rate = SqlInt 0 \<rparr>"

definition ex_timesheet :: "nat \<Rightarrow> date \<Rightarrow> nat \<Rightarrow> real \<Rightarrow> real timesheet" where
  "ex_timesheet i d w h = \<lparr> ts_id = i, ts_date = d, worker_id = w, hours = h, ts_note = [],
      ts_status = ''pending'', ts_created_by = 1, ts_approved_by = None,
      ts_approved_at = None \<rparr>"

definition ex_cash :: "real cash_entry" where
  "ex_cash = daily_vals ex_pyfloat ex_isnan id ''2025-06-07'' ''20250607_090000''
               [''date'' \<mapsto> ''2025-05-31'', ''coal'' \<mapsto> ''8'', ''cash_receive'' \<mapsto> ''5'']
               None (ex_user ''manager'') 1"

lemma ex_cash_fields:
  "ce_date ex_cash = ''2025-05-31''" "total_cost ex_cash = Some 8" "net_cash ex_cash = Some 5"
  "grand_total ex_cash = Some 8" "fixed_cost ex_cash = Some 0" "cash_receive ex_cash = Some 5"
  "add_amount ex_cash = Some 0" "less_amount ex_cash = Some 0"
  by (simp_all add: ex_cash_def daily_vals_def or_else_def f_coerce_def ex_pyfloat_def Let_def
      bind_real_def ex_isnan_def)

section \<open>Properties of the daily inputs\<close>

lemma str_nat_1: "str_nat 1 = ''1''"
  by code_simp

lemma str_nat_Suc_0: "str_nat (Suc 0) = ''1''"
  using str_nat_1 by simp

lemma f_coerce_unparsable: "pyfloat s = None \<Longrightarrow> f_coerce pyfloat (Some s) = 0"
  by (simp add: f_coerce_def)

lemma f_coerce_missing: "f_coerce pyfloat None = 0" "f_coerce pyfloat (Some []) = 0"
  by (simp_all add: f_coerce_def)











section \<open>Properties of the capture of timesheets\<close>

lemma timesheet_insert_appends:
  "\<exists>new. timesheet_insert pyfloat the_day g u ts w = ts @ new
     \<and> (\<forall>r\<in>set new. ts_status r = ''pending'')"
  by (simp add: timesheet_insert_def Let_def)

lemma foldl_timesheet_insert_appends:
  "\<exists>new. foldl (timesheet_insert pyfloat the_day g u) ts ws = ts @ new
     \<and> (\<forall>r\<in>set new. ts_status r = ''pending'')"
proof (induction ws arbitrary: ts)
  case Nil
  then show ?case by simp
next
  case (Cons w ws)
  obtain n1 where n1: "timesheet_insert pyfloat the_day g u ts w = ts @ n1"
    "\<forall>r\<in>set n1. ts_status r = ''pending''"
    using timesheet_insert_appends by blast
  obtain n2 where n2: "foldl (timesheet_insert pyfloat the_day g u) (ts @ n1) ws = (ts @ n1) @ n2"
    "\<forall>r\<in>set n2. ts_status r = ''pending''"
    using Cons.IH by blast
  show ?case
    by (rule exI [of _ "n1 @ n2"]) (use n1 n2 in auto)
qed

lemma timesheets_post_example:
  "fst (timesheets_post ex_pyfloat (Some (ex_user ''manager'')) (2025, 6, 7)
          [''hours_1'' \<mapsto> ''8''] [ex_worker 1 ''Amina''] [])
   = [ex_timesheet 1 (2025, 6, 7) 1 8]"
  by (simp add: timesheets_post_def login_required_def roles_required_def ex_user_def
      ex_worker_def active_workers_def timesheet_insert_def str_nat_Suc_0 f_coerce_def
      ex_pyfloat_def fresh_id_def get_default_def ex_timesheet_def)

text \<open>
  C7. The row \<open>daily()\<close> creates has the status \<open>submitted\<close>, and every row
  \<open>timesheets_page\<close> creates on a POST has the status \<open>pending\<close>: both capture operations
  only append rows, and no appended row is \<open>approved\<close>.
\<close>

theorem created_rows_not_approved:
  "(\<exists>r. fst (daily_post pyfloat isnan secure_filename today stamp (Some u) g file daily_cash)
           = daily_cash @ [r] \<and> ce_status r = ''submitted'' \<and> ce_status r \<noteq> ''approved'')
   \<and> (\<exists>new. fst (timesheets_post pyfloat current_user the_day g' workers timesheets)
           = timesheets @ new
         \<and> (\<forall>r\<in>set new. ts_status r = ''pending'' \<and> ts_status r \<noteq> ''approved''))"
proof
  show "\<exists>r. fst (daily_post pyfloat isnan secure_filename today stamp (Some u) g file daily_cash)
           = daily_cash @ [r] \<and> ce_status r = ''submitted'' \<and> ce_status r \<noteq> ''approved''"
    by (simp add: daily_post_def login_required_def daily_vals_def Let_def)
next
  obtain new where new:
    "\<And>u. foldl (timesheet_insert pyfloat the_day g' u) timesheets (active_workers workers)
       = timesheets @ new u" "\<And>u. \<forall>r\<in>set (new u). ts_status r = ''pending''"
    using foldl_timesheet_insert_appends [of pyfloat the_day g' _ timesheets "active_workers workers"]
    by metis
  show "\<exists>new. fst (timesheets_post pyfloat current_user the_day g' workers timesheets)
           = timesheets @ new
         \<and> (\<forall>r\<in>set new. ts_status r = ''pending'' \<and> ts_status r \<noteq> ''approved'')"
  proof (cases current_user)
    case None
    then show ?thesis
      by (simp add: timesheets_post_def login_required_def)
  next
    case (Some v)
    show ?thesis
    proof (cases "role v \<in> set [''manager'', ''md'', ''admin'']")
      case True
      have "fst (timesheets_post pyfloat current_user the_day g' workers timesheets)
              = timesheets @ new v"
        using True Some new(1) [of v]
        by (simp add: timesheets_post_def login_required_def roles_required_def)
      then show ?thesis using new(2) [of v] by auto
    next
      case False
      then show ?thesis using Some
        by (simp add: timesheets_post_def login_required_def roles_required_def)
    qed
  qed
qed

theorem created_rows_not_approved_witness:
  "\<exists>new. fst (timesheets_post ex_pyfloat (Some (ex_user ''manager'')) (2025, 6, 7)
                  [''hours_1'' \<mapsto> ''8''] [ex_worker 1 ''Amina''] []) = [] @ new
     \<and> new \<noteq> [] \<and> (\<forall>r\<in>set new. ts_status r = ''pending'' \<and> ts_status r \<noteq> ''approved'')"
  using created_rows_not_approved [where pyfloat = ex_pyfloat
      and current_user = "Some (ex_user ''manager'')" and the_day = "(2025, 6, 7)"
      and g' = "[''hours_1'' \<mapsto> ''8'']" and workers = "[ex_worker 1 ''Amina'']"
      and timesheets = "[]"] timesheets_post_example
  by auto

section \<open>Properties of the monthly totals and the summary\<close>

lemma text_order_example_1: "\<not> (''2025-06-01'' \<le> ''2025-05-31'')"
  by code_simp

lemma text_order_example_2: "(''2025-05-01'' \<le> ''2025-05-31'')"
  by code_simp

text \<open>
  C9. When no row of \<open>daily_cash\<close> lies in the month, each of the 21 totals of the month
  view is \<open>0\<close>; when no row lies in the range, the expenses and the revenue of the summary
  are both \<open>0\<close>. The sums are values, never NULL, and nothing is raised.
\<close>

theorem empty_totals_are_zero:
  "((\<forall>r\<in>set daily_cash. take 7 (ce_date r) \<noteq> month) \<longrightarrow>
      length (daily_tot isnan month daily_cash) = 21
      \<and> (\<forall>(name, v)\<in>set (daily_tot isnan month daily_cash). v = 0))
   \<and> ((\<forall>r\<in>set daily_cash. \<not> (start \<le> ce_date r \<and> ce_date r \<le> end)) \<longrightarrow>
        summary isnan start end daily_cash = (0, 0))"
proof (intro conjI impI)
  assume "\<forall>r\<in>set daily_cash. take 7 (ce_date r) \<noteq> month"
  then have "filter (\<lambda>r. take 7 (ce_date r) = month) daily_cash = []"
    by (simp add: filter_empty_conv)
  then show "\<forall>(name, v)\<in>set (daily_tot isnan month daily_cash). v = 0"
    by (auto simp: daily_tot_def sql_sum_def coalesce_def)
  show "length (daily_tot isnan month daily_cash) = 21"
    by (simp add: daily_tot_def cash_columns_def)
next
  assume "\<forall>r\<in>set daily_cash. \<not> (start \<le> ce_date r \<and> ce_date r \<le> end)"
  then have "filter (\<lambda>r. start \<le> ce_date r \<and> ce_date r \<le> end) daily_cash = []"
    by (simp add: filter_empty_conv)
  then show "summary isnan start end daily_cash = (0, 0)"
    by (simp add: summary_def sql_sum_def coalesce_def)
qed

theorem empty_totals_are_zero_witness:
  "map snd (daily_tot ex_isnan ''2025-06'' [ex_cash]) = replicate 21 0
   \<and> summary ex_isnan ''2025-06-01'' ''2025-06-30'' [ex_cash] = (0, 0)
   \<and> summary ex_isnan ''2025-05-01'' ''2025-05-31'' [ex_cash] = (8, 5)"
proof -
  have 1: "\<forall>r\<in>set [ex_cash]. take 7 (ce_date r) \<noteq> ''2025-06''"
    by (simp add: ex_cash_fields)
  have 2: "\<forall>r\<in>set [ex_cash]. \<not> (''2025-06-01'' \<le> ce_date r \<and> ce_date r \<le> ''2025-06-30'')"
    by (simp add: ex_cash_fields text_order_example_1)
  have 3: "summary ex_isnan ''2025-05-01'' ''2025-05-31'' [ex_cash] = (8, 5)"
    by (simp add: summary_def ex_cash_fields text_order_example_2 sql_sum_def coalesce_def
        sql_plus_def sql_minus_def bind_real_def ex_isnan_def)
  from empty_totals_are_zero [of "[ex_cash]" "''2025-06''" ex_isnan "''2025-06-01''"
      "''2025-06-30''"]
  have 4: "length (daily_tot ex_isnan ''2025-06'' [ex_cash]) = 21"
    and 5: "\<forall>(name, v)\<in>set (daily_tot ex_isnan ''2025-06'' [ex_cash]). v = 0"
    and 6: "summary ex_isnan ''2025-06-01'' ''2025-06-30'' [ex_cash] = (0, 0)"
    using 1 2 by blast+
  from 5 have "\<forall>v\<in>set (map snd (daily_tot ex_isnan ''2025-06'' [ex_cash])). v = 0"
    by auto
  then have "replicate (length (map snd (daily_tot ex_isnan ''2025-06'' [ex_cash]))) 0
               = map snd (daily_tot ex_isnan ''2025-06'' [ex_cash])"
    by (rule replicate_length_same)
  then have "map snd (daily_tot ex_isnan ''2025-06'' [ex_cash]) = replicate 21 0"
    using 4 by simp
  then show ?thesis
    using 3 6 by simp
qed

section \<open>Properties of the approval workflow\<close>

text \<open>
  C3. For approvers of role admin or md, approving an entry and then resetting it leaves
  every row with that id at status \<open>submitted\<close> (a cash entry) or \<open>pending\<close> (a timesheet),
  with approver and time of approval NULL and every other field as it was; all other rows
  are untouched. If the entry was in this state before, the table is the one it was before.
\<close>

theorem approve_then_reset:
  assumes "role a \<in> {''admin'', ''md''}" and "role b \<in> {''admin'', ''md''}"
  shows
    "fst (unapprove_daily (Some b) ref' row_id
            (fst (approve_daily (Some a) now ref row_id daily_cash)))
       = map (\<lambda>r. if ce_id r = row_id
                   then r\<lparr>ce_status := ''submitted'', ce_approved_by := None,
                           ce_approved_at := None\<rparr>
                   else r) daily_cash
     \<and> ((\<forall>r\<in>set daily_cash. ce_id r = row_id \<longrightarrow>
            ce_status r = ''submitted'' \<and> ce_approved_by r = None \<and> ce_approved_at r = None)
          \<longrightarrow> fst (unapprove_daily (Some b) ref' row_id
                     (fst (approve_daily (Some a) now ref row_id daily_cash))) = daily_cash)
     \<and> fst (reset_timesheet (Some b) ref' tid
            (fst (approve_timesheet (Some a) now ref tid timesheets)))
       = map (\<lambda>r. if ts_id r = tid
                   then r\<lparr>ts_status := ''pending'', ts_approved_by := None,
                           ts_approved_at := None\<rparr>
                   else r) timesheets
     \<and> ((\<forall>r\<in>set timesheets. ts_id r = tid \<longrightarrow>
            ts_status r = ''pending'' \<and> ts_approved_by r = None \<and> ts_approved_at r = None)
          \<longrightarrow> fst (reset_timesheet (Some b) ref' tid
                     (fst (approve_timesheet (Some a) now ref tid timesheets))) = timesheets)"
proof -
  have a: "role a \<in> set [''admin'', ''md'']" "role a \<in> set [''md'', ''admin'']"
    and b: "role b \<in> set [''admin'', ''md'']" "role b \<in> set [''md'', ''admin'']"
    using assms by auto
  have d1: "fst (unapprove_daily (Some b) ref' row_id
            (fst (approve_daily (Some a) now ref row_id daily_cash)))
       = map (\<lambda>r. if ce_id r = row_id
                   then r\<lparr>ce_status := ''submitted'', ce_approved_by := None,
                           ce_approved_at := None\<rparr>
                   else r) daily_cash"
    using a(1) b(1)
    by (simp add: unapprove_daily_def approve_daily_def login_required_def roles_required_def
        sql_update_def del: set_simps)
  have d2: "map (\<lambda>r. if ce_id r = row_id
                   then r\<lparr>ce_status := ''submitted'', ce_approved_by := None,
                           ce_approved_at := None\<rparr>
                   else r) daily_cash = daily_cash"
    if "\<forall>r\<in>set daily_cash. ce_id r = row_id \<longrightarrow>
            ce_status r = ''submitted'' \<and> ce_approved_by r = None \<and> ce_approved_at r = None"
    using that by (induction daily_cash) auto
  have t1: "fst (reset_timesheet (Some b) ref' tid
            (fst (approve_timesheet (Some a) now ref tid timesheets)))
       = map (\<lambda>r. if ts_id r = tid
                   then r\<lparr>ts_status := ''pending'', ts_approved_by := None,
                           ts_approved_at := None\<rparr>
                   else r) timesheets"
    using a(2) b(2)
    by (simp add: reset_timesheet_def approve_timesheet_def login_required_def
        roles_required_def sql_update_def del: set_simps)
  have t2: "map (\<lambda>r. if ts_id r = tid
                   then r\<lparr>ts_status := ''pending'', ts_approved_by := None,
                           ts_approved_at := None\<rparr>
                   else r) timesheets = timesheets"
    if "\<forall>r\<in>set timesheets. ts_id r = tid \<longrightarrow>
            ts_status r = ''pending'' \<and> ts_approved_by r = None \<and> ts_approved_at r = None"
    using that by (induction timesheets) auto
  show ?thesis
    using d1 d2 t1 t2 by presburger
qed

theorem approve_then_reset_witness:
  "fst (reset_timesheet (Some (ex_user ''md'')) None 1
          (fst (approve_timesheet (Some (ex_user ''admin'')) ''2025-06-08T09:00:00'' None 1
             [ex_timesheet 1 (2025, 6, 7) 1 8, ex_timesheet 2 (2025, 6, 7) 2 3])))
     = [ex_timesheet 1 (2025, 6, 7) 1 8, ex_timesheet 2 (2025, 6, 7) 2 3]
   \<and> fst (approve_timesheet (Some (ex_user ''admin'')) ''2025-06-08T09:00:00'' None 1
             [ex_timesheet 1 (2025, 6, 7) 1 8, ex_timesheet 2 (2025, 6, 7) 2 3])
     = [(ex_timesheet 1 (2025, 6, 7) 1 8)\<lparr>ts_status := ''approved'', ts_approved_by := Some 1,
           ts_approved_at := Some ''2025-06-08T09:00:00''\<rparr>, ex_timesheet 2 (2025, 6, 7) 2 3]
   \<and> fst (unapprove_daily (Some (ex_user ''md'')) None 1
          (fst (approve_daily (Some (ex_user ''admin'')) ''2025-06-08T09:00:00'' None 1
             [ex_cash]))) = [ex_cash]"
proof -
  have r: "role (ex_user ''admin'') \<in> {''admin'', ''md''}"
    "role (ex_user ''md'') \<in> {''admin'', ''md''}"
    by (simp_all add: ex_user_def)
  have pre_t: "\<forall>r\<in>set [ex_timesheet 1 (2025, 6, 7) 1 8, ex_timesheet 2 (2025, 6, 7) 2 3].
      ts_id r = 1 \<longrightarrow> ts_status r = ''pending'' \<and> ts_approved_by r = None \<and> ts_approved_at r = None"
    by (simp add: ex_timesheet_def)
  have pre_d: "\<forall>r\<in>set [ex_cash].
      ce_id r = 1 \<longrightarrow> ce_status r = ''submitted'' \<and> ce_approved_by r = None \<and> ce_approved_at r = None"
    by (simp add: ex_cash_def daily_vals_def Let_def)
  have ap: "fst (approve_timesheet (Some (ex_user ''admin'')) ''2025-06-08T09:00:00'' None 1
             [ex_timesheet 1 (2025, 6, 7) 1 8, ex_timesheet 2 (2025, 6, 7) 2 3])
     = [(ex_timesheet 1 (2025, 6, 7) 1 8)\<lparr>ts_status := ''approved'', ts_approved_by := Some 1,
           ts_approved_at := Some ''2025-06-08T09:00:00''\<rparr>, ex_timesheet 2 (2025, 6, 7) 2 3]"
    by (simp add: ex_timesheet_def approve_timesheet_def login_required_def roles_required_def
        ex_user_def sql_update_def)
  show ?thesis
    using approve_then_reset [OF r, of None 1 "''2025-06-08T09:00:00''" None "[ex_cash]" 1
        "[ex_timesheet 1 (2025, 6, 7) 1 8, ex_timesheet 2 (2025, 6, 7) 2 3]"] pre_t pre_d ap
    by blast
qed

section \<open>Properties of the deletion of users\<close>

text \<open>
  C4. A manager who asks for the deletion of a user is refused by the gate: no row is
  deleted and the answer is a redirect with the message \<open>Not allowed.\<close>. An md deletes
  the rows of the id only when the target is a manager; for a target of another role
  the table is unchanged and the answer is a redirect with the message
  \<open>MD can only delete managers.\<close>; for an id that is not there the table is unchanged too.
\<close>

theorem delete_user_roles:
  "(role u = ''manager'' \<longrightarrow>
      delete_user (Some u) uid users
        = (users, Redirect (UrlFor ''welcome'' []) [(''Not allowed.'', ''danger'')]))
   \<and> (role u = ''md'' \<longrightarrow>
        (\<forall>target. find (\<lambda>r. u_id r = uid) users = Some target \<longrightarrow>
           role target \<noteq> ''manager'' \<longrightarrow>
           delete_user (Some u) uid users
             = (users, Redirect (UrlFor ''users_page'' [])
                         [(''MD can only delete managers.'', ''warning'')]))
        \<and> (\<forall>target. find (\<lambda>r. u_id r = uid) users = Some target \<longrightarrow>
              role target = ''manager'' \<longrightarrow>
              delete_user (Some u) uid users
                = (filter (\<lambda>r. u_id r \<noteq> uid) users,
                   Redirect (UrlFor ''users_page'' []) [(''Deleted.'', ''warning'')]))
        \<and> (find (\<lambda>r. u_id r = uid) users = None \<longrightarrow>
              delete_user (Some u) uid users
                = (users, Redirect (UrlFor ''users_page'' []) [])))"
  by (auto simp: delete_user_def login_required_def roles_required_def sql_delete_def)

theorem delete_user_roles_witness:
  "delete_user (Some (ex_user ''manager'')) 2 [ex_user ''admin'', (ex_user ''manager'')\<lparr>u_id := 2\<rparr>]
     = ([ex_user ''admin'', (ex_user ''manager'')\<lparr>u_id := 2\<rparr>],
        Redirect (UrlFor ''welcome'' []) [(''Not allowed.'', ''danger'')])
   \<and> delete_user (Some (ex_user ''md'')) 1 [ex_user ''admin'', (ex_user ''manager'')\<lparr>u_id := 2\<rparr>]
     = ([ex_user ''admin'', (ex_user ''manager'')\<lparr>u_id := 2\<rparr>],
        Redirect (UrlFor ''users_page'' []) [(''MD can only delete managers.'', ''warning'')])
   \<and> delete_user (Some (ex_user ''md'')) 2 [ex_user ''admin'', (ex_user ''manager'')\<lparr>u_id := 2\<rparr>]
     = ([ex_user ''admin''], Redirect (UrlFor ''users_page'' []) [(''Deleted.'', ''warning'')])
   \<and> delete_user (Some (ex_user ''md'')) 3 [ex_user ''admin'', (ex_user ''manager'')\<lparr>u_id := 2\<rparr>]
     = ([ex_user ''admin'', (ex_user ''manager'')\<lparr>u_id := 2\<rparr>],
        Redirect (UrlFor ''users_page'' []) [])"
  using delete_user_roles [of "ex_user ''manager''" 2 "[ex_user ''admin'', (ex_user ''manager'')\<lparr>u_id := 2\<rparr>]"]
    delete_user_roles [of "ex_user ''md''" 1 "[ex_user ''admin'', (ex_user ''manager'')\<lparr>u_id := 2\<rparr>]"]
    delete_user_roles [of "ex_user ''md''" 2 "[ex_user ''admin'', (ex_user ''manager'')\<lparr>u_id := 2\<rparr>]"]
    delete_user_roles [of "ex_user ''md''" 3 "[ex_user ''admin'', (ex_user ''manager'')\<lparr>u_id := 2\<rparr>]"]
  by (simp add: ex_user_def)

section \<open>Properties of the roster\<close>

text \<open>
  C8. A worker created through \<open>people()\<close> is stored with \<open>approved_hourly_rate = 0\<close> and
  \<open>active = 1\<close>, whatever \<open>hourly_rate\<close> the form carries; the posted rate itself is kept as
  it was sent.
\<close>

theorem worker_created_unapproved:
  assumes "role u \<in> {''manager'', ''md'', ''admin''}"
    and "g ''kind'' = Some ''worker''" and "g ''name'' = Some name"
  shows "\<exists>w. fst (people_post pyfloat isnan today (Some u) g (workers, staff)) = (workers @ [w], staff)
           \<and> approved_hourly_rate w = SqlInt 0 \<and> active w = 1
           \<and> hourly_rate w = SqlText (get_default g ''hourly_rate'' ''0'')
           \<and> w_name w = name"
  using assms by (auto simp: people_post_def login_required_def roles_required_def)

theorem worker_created_unapproved_witness:
  "\<exists>w. fst (people_post ex_pyfloat ex_isnan ''2025-06-07'' (Some (ex_user ''manager''))
               [''kind'' \<mapsto> ''worker'', ''name'' \<mapsto> ''Amina'', ''hourly_rate'' \<mapsto> ''12.5'']
               ([], [])) = ([] @ [w], [])
         \<and> approved_hourly_rate w = SqlInt 0 \<and> active w = 1
         \<and> hourly_rate w = SqlText ''12.5'' \<and> w_name w = ''Amina''"
proof -
  have "role (ex_user ''manager'') \<in> {''manager'', ''md'', ''admin''}"
    by (simp add: ex_user_def)
  from worker_created_unapproved [OF this, where name = "''Amina''" and pyfloat = ex_pyfloat
      and isnan = ex_isnan
      and g = "[''kind'' \<mapsto> ''worker'', ''name'' \<mapsto> ''Amina'', ''hourly_rate'' \<mapsto> ''12.5'']"
      and today = "''2025-06-07''" and workers = "[]" and staff = "[]"]
  show ?thesis by (simp add: get_default_def)
qed

text \<open>
  C5, at the input \<open>new_rate = "abc"\<close>. \<open>_f\<close> turns text that is no number into \<open>0.0\<close>
  (\<open>f_coerce_unparsable\<close>), and \<open>daily()\<close>, the creation of staff and the capture of
  timesheets pass every amount through it. \<open>update_hourly_rate\<close> does not: the text is bound
  to the column as it was sent, so the stored rate is the text \<open>abc\<close>, not \<open>0.0\<close>, and
  reading it back with \<open>float\<close>, as the GET branch of \<open>people()\<close> does, raises ValueError.
\<close>

theorem update_hourly_rate_keeps_text:
  "fst (update_hourly_rate (Some (ex_user ''admin'')) [''new_rate'' \<mapsto> ''abc''] 1
          [ex_worker 1 ''Amina''])
     = [(ex_worker 1 ''Amina'')\<lparr>hourly_rate := SqlText ''abc''\<rparr>]
   \<and> ex_pyfloat ''abc'' = None
   \<and> SqlText ''abc'' \<noteq> (SqlReal 0 :: real sqlval)
   \<and> float_of_sqlval ex_pyfloat (SqlText ''abc'') = Inl ValueError
   \<and> f_coerce ex_pyfloat (Some ''abc'') = 0"
  by (simp add: update_hourly_rate_def login_required_def roles_required_def ex_user_def
      sql_update_def ex_worker_def form_value_def ex_pyfloat_def float_of_sqlval_def
      f_coerce_def)

section \<open>Properties of the monthly grid\<close>

lemma cell_of_upd:
  "gd wn = Some row \<Longrightarrow>
   cell_of (gd(wn \<mapsto> row(ws \<mapsto> v))) w k = (if w = wn \<and> k = ws then Some v else cell_of gd w k)"
  by (auto simp: cell_of_def)

lemma fill_grid_cells:
  assumes "\<forall>r\<in>set rs. fst (snd r) \<in> dom gd \<and> snd (snd r) = V (fst r, fst (snd r))"
  shows "\<exists>gd'. fill_grid gd rs = Inr gd' \<and> dom gd' = dom gd
           \<and> (\<forall>w k. cell_of gd' w k =
                 (if (k, w) \<in> (\<lambda>r. (fst r, fst (snd r))) ` set rs
                  then Some (float_or0 (V (k, w))) else cell_of gd w k))"
  using assms
proof (induction rs arbitrary: gd)
  case Nil
  then show ?case by simp
next
  case (Cons r rs)
  obtain ws wn h where r: "r = (ws, wn, h)" by (cases r) auto
  from Cons.prems r obtain row where row: "gd wn = Some row" and h: "h = V (ws, wn)"
    by auto
  let ?gd1 = "gd(wn \<mapsto> row(ws \<mapsto> float_or0 h))"
  have dom1: "dom ?gd1 = dom gd" using row by auto
  have "\<forall>r\<in>set rs. fst (snd r) \<in> dom ?gd1 \<and> snd (snd r) = V (fst r, fst (snd r))"
    using Cons.prems dom1 by simp
  from Cons.IH [OF this] obtain gd' where gd':
    "fill_grid ?gd1 rs = Inr gd'" "dom gd' = dom ?gd1"
    "\<forall>w k. cell_of gd' w k =
        (if (k, w) \<in> (\<lambda>r. (fst r, fst (snd r))) ` set rs
         then Some (float_or0 (V (k, w))) else cell_of ?gd1 w k)"
    by blast
  have "fill_grid gd (r # rs) = Inr gd'"
    using r row gd'(1) by simp
  moreover have "dom gd' = dom gd" using gd'(2) dom1 by simp
  moreover have "\<forall>w k. cell_of gd' w k =
        (if (k, w) \<in> (\<lambda>r. (fst r, fst (snd r))) ` set (r # rs)
         then Some (float_or0 (V (k, w))) else cell_of gd w k)"
    using gd'(3) cell_of_upd [of gd wn row] row r h by auto
  ultimately show ?case by blast
qed

lemma sum_cells_ok:
  "\<forall>d\<in>set ds. row (Some d) = Some (c d) \<Longrightarrow>
   sum_cells row ds acc = Inr (foldl (+) acc (map c ds))"
  by (induction ds arbitrary: acc) auto

lemma totals_of_ok:
  assumes "\<forall>w\<in>set ws. \<exists>row. gd w = Some row \<and> (\<forall>d\<in>set dates. row (Some d) = Some (c w d))"
  shows "totals_of gd dates ws = Inr (map (\<lambda>w. (w, foldl (+) 0 (map (c w) dates))) ws)"
  using assms
proof (induction ws)
  case Nil
  then show ?case by simp
next
  case (Cons w ws)
  then obtain row where row: "gd w = Some row" "\<forall>d\<in>set dates. row (Some d) = Some (c w d)"
    by auto
  have "totals_of gd dates ws = Inr (map (\<lambda>w. (w, foldl (+) 0 (map (c w) dates))) ws)"
    using Cons by simp
  then show ?case
    using row sum_cells_ok [OF row(2), of 0] by simp
qed

lemma map_of_const_dates:
  "map_of (map (\<lambda>d. (Some d, v)) ds) k = (if k \<in> Some ` set ds then Some v else None)"
  by (induction ds) auto

lemma map_of_names:
  "map_of (map (\<lambda>w. (w, f w)) ns) w = (if w \<in> set ns then Some (f w) else None)"
  by (induction ns) auto

lemma cell_of_initial:
  "cell_of (map_of (map (\<lambda>w. (w, map_of (map (\<lambda>d. (Some d, v)) ds))) ns)) w k
     = (if w \<in> set ns \<and> k \<in> Some ` set ds then Some v else None)"
  by (simp add: cell_of_def map_of_names map_of_const_dates)

lemma dom_initial: "dom (map_of (map (\<lambda>w. (w, f w)) ns)) = set ns"
  by (auto simp: map_of_names dom_def)

lemma week_rows_keys:
  "(\<lambda>r. (fst r, fst (snd r))) ` set (week_rows isnan month ts wt)
     = week_key ` set (month_rows month ts wt)"
  by (force simp: week_rows_def Let_def)

lemma week_rows_values:
  "r \<in> set (week_rows isnan month ts wt) \<Longrightarrow>
   snd (snd r) = week_hours isnan (month_rows month ts wt) (fst r, fst (snd r))"
  by (auto simp: week_rows_def Let_def)

lemma week_hours_no_group:
  "k \<notin> week_key ` set rows \<Longrightarrow> week_hours isnan rows k = 0"
proof -
  assume "k \<notin> week_key ` set rows"
  then have "filter (\<lambda>r. week_key r = k) rows = []"
    by (auto simp: filter_empty_conv)
  then show ?thesis by (simp add: week_hours_def sql_sum_def coalesce_def)
qed

lemma float_or0_0: "float_or0 0 = 0"
  by (simp add: float_or0_def)

lemma timesheets_page_cells:
  fixes ts :: "('a::{zero,plus}) timesheet list"
  assumes m: "month_of the_day = (y, m)" "1 \<le> m" "m \<le> 12"
  shows "\<exists>g. timesheets_page isnan the_day wt ts = Inr g
     \<and> grid_dates g = map (\<lambda>d. (y, m, d)) [1..<days_in_month y m + 1]
     \<and> grid_workers g = sort (remdups (map w_name (active_workers wt)
                            @ map (\<lambda>r. fst (snd r)) (week_rows isnan (y, m) ts wt)))
     \<and> (\<forall>w\<in>set (grid_workers g). \<forall>d\<in>set (grid_dates g).
           grid_cell g w d = Some (float_or0 (week_hours isnan (month_rows (y, m) ts wt) (Some d, w))))
     \<and> (\<forall>w\<in>set (grid_workers g).
           grid_totals g w = Some (foldl (+) 0
             (map (\<lambda>d. float_or0 (week_hours isnan (month_rows (y, m) ts wt) (Some d, w)))
                  (grid_dates g))))"
proof -
  let ?rows = "month_rows (y, m) ts wt"
  let ?wr = "week_rows isnan (y, m) ts wt"
  let ?dates = "map (\<lambda>d. (y, m, d)) [1..<days_in_month y m + 1]"
  let ?names = "sort (remdups (map w_name (active_workers wt) @ map (\<lambda>r. fst (snd r)) ?wr))"
  let ?d0 = "map_of (map (\<lambda>w. (w, map_of (map (\<lambda>d. (Some d, 0::'a)) ?dates))) ?names)"
  let ?c = "\<lambda>w d. float_or0 (week_hours isnan ?rows (Some d, w))"
  have dom0: "dom ?d0 = set ?names"
    by (rule dom_initial)
  have cell0: "cell_of ?d0 w k =
      (if w \<in> set ?names \<and> k \<in> Some ` set ?dates then Some 0 else None)" for w k
    by (rule cell_of_initial)
  have pre: "\<forall>r\<in>set ?wr. fst (snd r) \<in> dom ?d0 \<and> snd (snd r) = week_hours isnan ?rows (fst r, fst (snd r))"
    using week_rows_values [of _ isnan "(y, m)" ts wt] unfolding dom0 by auto
  from fill_grid_cells [OF pre] obtain data where data:
    "fill_grid ?d0 ?wr = Inr data" "dom data = dom ?d0"
    "\<forall>w k. cell_of data w k =
        (if (k, w) \<in> (\<lambda>r. (fst r, fst (snd r))) ` set ?wr
         then Some (float_or0 (week_hours isnan ?rows (k, w))) else cell_of ?d0 w k)"
    by blast
  have cells: "cell_of data w (Some d) = Some (?c w d)"
    if "w \<in> set ?names" "d \<in> set ?dates" for w d
  proof (cases "(Some d, w) \<in> week_key ` set ?rows")
    case True
    then show ?thesis using data(3) week_rows_keys [of isnan "(y, m)" ts wt] by simp
  next
    case False
    then have "cell_of data w (Some d) = cell_of ?d0 w (Some d)"
      using data(3) week_rows_keys [of isnan "(y, m)" ts wt] by simp
    also have "\<dots> = Some 0" using that cell0 by auto
    finally show ?thesis
      using week_hours_no_group [OF False] by (simp add: float_or0_0)
  qed
  have rows_ok: "\<forall>w\<in>set ?names. \<exists>row. data w = Some row
        \<and> (\<forall>d\<in>set ?dates. row (Some d) = Some (?c w d))"
  proof
    fix w assume w: "w \<in> set ?names"
    then have "w \<in> dom data" using data(2) dom0 by simp
    then obtain row where row: "data w = Some row" by auto
    have "\<forall>d\<in>set ?dates. row (Some d) = Some (?c w d)"
      using cells [OF w] row by (simp add: cell_of_def)
    then show "\<exists>row. data w = Some row \<and> (\<forall>d\<in>set ?dates. row (Some d) = Some (?c w d))"
      using row by blast
  qed
  have tot: "totals_of data ?dates ?names
      = Inr (map (\<lambda>w. (w, foldl (+) 0 (map (?c w) ?dates))) ?names)"
    by (rule totals_of_ok [OF rows_ok])
  let ?g = "\<lparr> grid_dates = ?dates, grid_workers = ?names, grid_data = data,
             grid_totals = map_of (map (\<lambda>w. (w, foldl (+) 0 (map (?c w) ?dates))) ?names) \<rparr>"
  have page: "timesheets_page isnan the_day wt ts = Inr ?g"
    using m data(1) tot by (simp add: timesheets_page_def Let_def)
  have "\<forall>w\<in>set (grid_workers ?g). \<forall>d\<in>set (grid_dates ?g). grid_cell ?g w d = Some (?c w d)"
    using cells by (simp add: grid_cell_def cell_of_def)
  moreover have "\<forall>w\<in>set (grid_workers ?g).
      grid_totals ?g w = Some (foldl (+) 0 (map (?c w) (grid_dates ?g)))"
    by (simp add: map_of_names)
  ultimately show ?thesis
    using page by (intro exI [of _ ?g]) simp
qed

lemma week_hours_shown:
  assumes "d \<in> set (map (\<lambda>d. (y, m, d)) [1..<days_in_month y m + 1])"
  shows "week_hours isnan (shown_rows (y, m) ts wt) (Some d, w)
           = week_hours isnan (month_rows (y, m) ts wt) (Some d, w)"
proof -
  have "\<not> late_bucket (y, m) (fst r)" if "week_key r = (Some d, w)" for r :: "'a timesheet \<times> string"
    using that assms by (auto simp: late_bucket_def week_key_def)
  then have "filter (\<lambda>r. week_key r = (Some d, w)) (shown_rows (y, m) ts wt)
           = filter (\<lambda>r. week_key r = (Some d, w)) (month_rows (y, m) ts wt)"
    unfolding shown_rows_def filter_filter
    by (intro filter_cong refl) auto
  then show ?thesis by (simp add: week_hours_def)
qed

text \<open>
  C10. For a day of a month from 1 to 12 the grid is built without an error. Its columns
  are the days of the month, and for every worker shown each cell, and the total of the
  worker, which adds the cells of these columns from the left, is computed from the rows
  of the month without those whose week bucket (the Saturday \<open>weekday 6\<close> moves the date
  to) lies after the last day of the month: the hours of such a row are in no column
  shown and in no total.
\<close>

theorem late_bucket_hours_not_displayed:
  fixes timesheets :: "('a::{zero,plus}) timesheet list"
  assumes "month_of the_day = (y, m)" and "1 \<le> m" and "m \<le> 12"
  shows "\<exists>g. timesheets_page isnan the_day workers timesheets = Inr g
     \<and> grid_dates g = map (\<lambda>d. (y, m, d)) [1..<days_in_month y m + 1]
     \<and> grid_workers g = sort (remdups (map w_name (active_workers workers)
                            @ map (\<lambda>r. fst (snd r)) (week_rows isnan (y, m) timesheets workers)))
     \<and> (\<forall>w\<in>set (grid_workers g).
          (\<forall>d\<in>set (grid_dates g).
             grid_cell g w d
               = Some (float_or0 (week_hours isnan (shown_rows (y, m) timesheets workers) (Some d, w))))
          \<and> grid_totals g w
              = Some (foldl (+) 0
                  (map (\<lambda>d. float_or0 (week_hours isnan (shown_rows (y, m) timesheets workers) (Some d, w)))
                       (grid_dates g))))"
proof -
  from timesheets_page_cells [OF assms, of isnan workers timesheets]
  obtain g where g: "timesheets_page isnan the_day workers timesheets = Inr g"
    "grid_dates g = map (\<lambda>d. (y, m, d)) [1..<days_in_month y m + 1]"
    "grid_workers g = sort (remdups (map w_name (active_workers workers)
                            @ map (\<lambda>r. fst (snd r)) (week_rows isnan (y, m) timesheets workers)))"
    "\<forall>w\<in>set (grid_workers g). \<forall>d\<in>set (grid_dates g).
       grid_cell g w d = Some (float_or0 (week_hours isnan (month_rows (y, m) timesheets workers) (Some d, w)))"
    "\<forall>w\<in>set (grid_workers g).
       grid_totals g w = Some (foldl (+) 0
         (map (\<lambda>d. float_or0 (week_hours isnan (month_rows (y, m) timesheets workers) (Some d, w)))
              (grid_dates g)))"
    by blast
  have eq: "week_hours isnan (shown_rows (y, m) timesheets workers) (Some d, w)
          = week_hours isnan (month_rows (y, m) timesheets workers) (Some d, w)"
    if "d \<in> set (grid_dates g)" for d w
    using that week_hours_shown [of d y m isnan timesheets workers w] unfolding g(2) by blast
  have maps: "map (\<lambda>d. float_or0 (week_hours isnan (shown_rows (y, m) timesheets workers) (Some d, w)))
                  (grid_dates g)
            = map (\<lambda>d. float_or0 (week_hours isnan (month_rows (y, m) timesheets workers) (Some d, w)))
                  (grid_dates g)" for w
    using eq by (intro map_cong refl) simp
  have c: "\<forall>w\<in>set (grid_workers g).
          (\<forall>d\<in>set (grid_dates g).
             grid_cell g w d
               = Some (float_or0 (week_hours isnan (shown_rows (y, m) timesheets workers) (Some d, w))))
          \<and> grid_totals g w
              = Some (foldl (+) 0
                  (map (\<lambda>d. float_or0 (week_hours isnan (shown_rows (y, m) timesheets workers) (Some d, w)))
                       (grid_dates g)))"
  proof (intro ballI conjI)
    fix w d
    assume "w \<in> set (grid_workers g)" "d \<in> set (grid_dates g)"
    then show "grid_cell g w d
        = Some (float_or0 (week_hours isnan (shown_rows (y, m) timesheets workers) (Some d, w)))"
      using g(4) eq [of d w] by auto
  next
    fix w
    assume "w \<in> set (grid_workers g)"
    then show "grid_totals g w
        = Some (foldl (+) 0
            (map (\<lambda>d. float_or0 (week_hours isnan (shown_rows (y, m) timesheets workers) (Some d, w)))
                 (grid_dates g)))"
      using g(5) unfolding maps [of w] by blast
  qed
  show ?thesis
    using g(1,2,3) c by blast
qed

end
